theory Spec2Isabelle
  imports Complex_Main "HOL-Library.Multiset" "HOL-Library.Log_Nat"
begin

section \<open>Numeric values of the notebook\<close>

text \<open>
  The notebook \<^verbatim>\<open>experiments/Reparameterization Trick.ipynb\<close> computes with NumPy
  \<^verbatim>\<open>float64\<close> arrays.  A value is modelled as a real number or one of the three IEEE 754
  special values.  Operations on finite values are exact (rounding, overflow and underflow
  are not part of the model, and there is a single zero); the special values follow the
  IEEE rules that NumPy applies, where a division by zero gives an infinity or NaN together
  with a warning and never raises.
\<close>

datatype npfloat = Finite real | PosInf | NegInf | NaN

fun fadd :: "npfloat \<Rightarrow> npfloat \<Rightarrow> npfloat" where
  "fadd (Finite a) (Finite b) = Finite (a + b)"
| "fadd NaN _ = NaN"
| "fadd _ NaN = NaN"
| "fadd PosInf NegInf = NaN"
| "fadd NegInf PosInf = NaN"
| "fadd PosInf _ = PosInf"
| "fadd _ PosInf = PosInf"
| "fadd NegInf _ = NegInf"
| "fadd _ NegInf = NegInf"

fun fsub :: "npfloat \<Rightarrow> npfloat \<Rightarrow> npfloat" where
  "fsub (Finite a) (Finite b) = Finite (a - b)"
| "fsub NaN _ = NaN"
| "fsub _ NaN = NaN"
| "fsub PosInf PosInf = NaN"
| "fsub NegInf NegInf = NaN"
| "fsub PosInf _ = PosInf"
| "fsub _ NegInf = PosInf"
| "fsub NegInf _ = NegInf"
| "fsub _ PosInf = NegInf"

fun fmul :: "npfloat \<Rightarrow> npfloat \<Rightarrow> npfloat" where
  "fmul (Finite a) (Finite b) = Finite (a * b)"
| "fmul NaN _ = NaN"
| "fmul _ NaN = NaN"
| "fmul PosInf (Finite b) = (if b = 0 then NaN else if 0 < b then PosInf else NegInf)"
| "fmul NegInf (Finite b) = (if b = 0 then NaN else if 0 < b then NegInf else PosInf)"
| "fmul (Finite a) PosInf = (if a = 0 then NaN else if 0 < a then PosInf else NegInf)"
| "fmul (Finite a) NegInf = (if a = 0 then NaN else if 0 < a then NegInf else PosInf)"
| "fmul PosInf PosInf = PosInf"
| "fmul NegInf NegInf = PosInf"
| "fmul PosInf NegInf = NegInf"
| "fmul NegInf PosInf = NegInf"

text \<open>
  Division.  Every divisor of the notebook is an array size or \<^verbatim>\<open>4*abs(..)**1.75\<close>, so
  a zero divisor is the positive zero and the quotient of a non-zero value by it takes the
  sign of the numerator; \<^verbatim>\<open>0.0/0\<close> is NaN.
\<close>

fun fdiv :: "npfloat \<Rightarrow> npfloat \<Rightarrow> npfloat" where
  "fdiv (Finite a) (Finite b) =
     (if b = 0 then (if a = 0 then NaN else if 0 < a then PosInf else NegInf)
      else Finite (a / b))"
| "fdiv NaN _ = NaN"
| "fdiv _ NaN = NaN"
| "fdiv (Finite a) _ = Finite 0"
| "fdiv PosInf (Finite b) = (if b < 0 then NegInf else PosInf)"
| "fdiv NegInf (Finite b) = (if b < 0 then PosInf else NegInf)"
| "fdiv _ _ = NaN"

fun fabs :: "npfloat \<Rightarrow> npfloat" where
  "fabs (Finite a) = Finite \<bar>a\<bar>"
| "fabs NaN = NaN"
| "fabs _ = PosInf"

text \<open>
  \<^verbatim>\<open>v ** p\<close> for a positive exponent that is not an integer, as both exponents of the
  notebook are (\<^verbatim>\<open>1/4\<close> and \<^verbatim>\<open>2-1/4\<close>; the kernel is Python 3, so \<^verbatim>\<open>1/4\<close> is
  \<^verbatim>\<open>0.25\<close>): a negative base gives NaN, zero gives zero.  Like the other operations
  it is exact: \<^verbatim>\<open>float64\<close> underflows \<^verbatim>\<open>abs(y)**1.75\<close> to \<^verbatim>\<open>0.0\<close> for \<open>|y|\<close> below about
  \<^verbatim>\<open>1e-185\<close>, and a quotient by it is then infinite; that is outside the model.
\<close>

fun fpow :: "npfloat \<Rightarrow> real \<Rightarrow> npfloat" where
  "fpow (Finite a) p = (if a < 0 then NaN else Finite (a powr p))"
| "fpow NaN p = NaN"
| "fpow _ p = PosInf"


definition of_size :: "nat \<Rightarrow> npfloat" where
  "of_size n = Finite (real n)"

text \<open>
  \<^verbatim>\<open>np.sum\<close>: the sum of the elements, \<^verbatim>\<open>0.0\<close> for an empty array.  With exact addition
  the order in which NumPy accumulates the elements does not change the sum.
\<close>

definition np_sum :: "npfloat list \<Rightarrow> npfloat" where
  "np_sum a = foldl fadd (Finite 0) a"

text \<open>\<^verbatim>\<open>np.mean(a)\<close> is \<^verbatim>\<open>np.sum(a) / a.size\<close>.\<close>

definition np_mean :: "npfloat list \<Rightarrow> npfloat" where
  "np_mean a = fdiv (np_sum a) (of_size (length a))"

text \<open>
  \<^verbatim>\<open>np.var(a)\<close> with the default \<^verbatim>\<open>ddof=0\<close>: the mean of the squared deviations from
  \<^verbatim>\<open>np.mean(a)\<close>.
\<close>

definition np_var :: "npfloat list \<Rightarrow> npfloat" where
  "np_var a =
     (let m = np_mean a;
          d = map (\<lambda>v. fsub v m) a
      in fdiv (np_sum (map (\<lambda>v. fmul v v) d)) (of_size (length a)))"

definition np_zeros :: "nat \<Rightarrow> npfloat list" where
  "np_zeros n = replicate n (Finite 0)"


section \<open>The random source\<close>

text \<open>
  \<^verbatim>\<open>np.random.randn\<close> reads the process-wide generator.  The generator is carried
  explicitly: the sequence of standard-normal variates that its current seed determines
  (always finite values), and the number of variates consumed so far.
\<close>

record rng =
  draws :: "nat \<Rightarrow> real"
  pos :: nat

datatype error =
    ValueError            \<comment> \<open>NumPy: \<^verbatim>\<open>negative dimensions are not allowed\<close>, or a dimension too large\<close>
  | MemoryError           \<comment> \<open>NumPy: no memory for the array\<close>
  | IndexError            \<comment> \<open>a store outside an array\<close>
  | InvalidConfiguration  \<comment> \<open>named by the specification; no statement of the notebook raises it\<close>

text \<open>
  \<^verbatim>\<open>np.random.randn(n)\<close>: the next \<open>n\<close> variates; a negative \<open>n\<close> raises.  This is
  \<^verbatim>\<open>randn\<close> for the sizes of which NumPy can create an array; the sizes that it refuses
  for their magnitude are the subject of the section on array creation below.
\<close>

definition randn :: "int \<Rightarrow> rng \<Rightarrow> error + (npfloat list \<times> rng)" where
  "randn n g =
     (if n < 0 then Inl ValueError
      else Inr (map (\<lambda>k. Finite (draws g k)) [pos g ..< pos g + nat n],
                g\<lparr>pos := pos g + nat n\<rparr>))"

section \<open>The notebook's global variables and its two estimators\<close>

text \<open>
  The state of a session: the global variables that the cells assign and read, and the
  generator.  \<^verbatim>\<open>theta\<close> is a finite number.
\<close>

record nb =
  theta :: real
  x :: "npfloat list"
  eps :: "npfloat list"
  gen :: rng
  est1 :: "npfloat list"
  est2 :: "npfloat list"
  means1 :: "npfloat list"
  vars1 :: "npfloat list"
  means2 :: "npfloat list"
  vars2 :: "npfloat list"

text \<open>
  \<^verbatim>\<open>grad1 = lambda x: np.sum((abs(x)**(1/4))*(x-theta)) / x.size\<close>

  The parameter shadows the global \<^verbatim>\<open>x\<close>; \<^verbatim>\<open>theta\<close> is the global.
\<close>

definition grad1 :: "nb \<Rightarrow> npfloat list \<Rightarrow> npfloat" where
  "grad1 st xa =
     fdiv (np_sum (map (\<lambda>v. fmul (fpow (fabs v) (1/4)) (fsub v (Finite (theta st)))) xa))
          (of_size (length xa))"

text \<open>
  \<^verbatim>\<open>grad2 = lambda eps: np.sum((theta + eps)/(4*abs(theta + eps)**(2-1/4))) / x.size\<close>

  Here \<^verbatim>\<open>x\<close> is not a parameter: it is the global array at the time of the call.
\<close>

definition grad2 :: "nb \<Rightarrow> npfloat list \<Rightarrow> npfloat" where
  "grad2 st ea =
     fdiv (np_sum (map (\<lambda>e. fdiv (fadd (Finite (theta st)) e)
                                 (fmul (Finite 4) (fpow (fabs (fadd (Finite (theta st)) e)) (2 - 1/4))))
                       ea))
          (of_size (length (x st)))"

section \<open>The experiment (cell 7)\<close>

text \<open>\<^verbatim>\<open>a[r] = v\<close> on a one-dimensional array: an index past the end raises.\<close>

definition store :: "npfloat list \<Rightarrow> nat \<Rightarrow> npfloat \<Rightarrow> error + npfloat list" where
  "store a r v = (if r < length a then Inr (a[r := v]) else Inl IndexError)"

text \<open>
  The body of the inner loop, for the sample size \<open>N\<close> and the repetition \<open>r\<close>:
  \<^verbatim>\<open>
        x = np.random.randn(N) + theta
        est1[r] = grad1(x)
        eps = np.random.randn(N)
        est2[r] = grad2(eps)
  \<close>
\<close>

definition trial :: "int \<Rightarrow> nat \<Rightarrow> nb \<Rightarrow> error + nb" where
  "trial N r st =
     (case randn N (gen st) of
        Inl e \<Rightarrow> Inl e
      | Inr (zs, g1) \<Rightarrow>
          let sa = st\<lparr>gen := g1, x := map (\<lambda>z. fadd z (Finite (theta st))) zs\<rparr> in
          (case store (est1 sa) r (grad1 sa (x sa)) of
             Inl e \<Rightarrow> Inl e
           | Inr b1 \<Rightarrow>
               let sb = sa\<lparr>est1 := b1\<rparr> in
               (case randn N (gen sb) of
                  Inl e \<Rightarrow> Inl e
                | Inr (es, g2) \<Rightarrow>
                    let sc = sb\<lparr>gen := g2, eps := es\<rparr> in
                    (case store (est2 sc) r (grad2 sc (eps sc)) of
                       Inl e \<Rightarrow> Inl e
                     | Inr b2 \<Rightarrow> Inr (sc\<lparr>est2 := b2\<rparr>)))))"

text \<open>\<^verbatim>\<open>for r in range(reps):\<close> over the indices still to run.\<close>

fun reps_loop :: "int \<Rightarrow> nat list \<Rightarrow> nb \<Rightarrow> error + nb" where
  "reps_loop N [] st = Inr st"
| "reps_loop N (r # rs) st =
     (case trial N r st of
        Inl e \<Rightarrow> Inl e
      | Inr st' \<Rightarrow> reps_loop N rs st')"

text \<open>\<^verbatim>\<open>range(reps)\<close> is empty for \<open>reps \<le> 0\<close>.\<close>

definition range_py :: "int \<Rightarrow> nat list" where
  "range_py n = [0 ..< nat n]"

text \<open>
  The four stores after the inner loop:
  \<^verbatim>\<open>
    means1[i] = np.mean(est1)
    means2[i] = np.mean(est2)
    vars1[i] = np.var(est1)
    vars2[i] = np.var(est2)
  \<close>
\<close>

definition record_stats :: "nat \<Rightarrow> nb \<Rightarrow> error + nb" where
  "record_stats i st =
     (case store (means1 st) i (np_mean (est1 st)) of
        Inl e \<Rightarrow> Inl e
      | Inr m1 \<Rightarrow>
     (case store (means2 st) i (np_mean (est2 st)) of
        Inl e \<Rightarrow> Inl e
      | Inr m2 \<Rightarrow>
     (case store (vars1 st) i (np_var (est1 st)) of
        Inl e \<Rightarrow> Inl e
      | Inr v1 \<Rightarrow>
     (case store (vars2 st) i (np_var (est2 st)) of
        Inl e \<Rightarrow> Inl e
      | Inr v2 \<Rightarrow> Inr (st\<lparr>means1 := m1, means2 := m2, vars1 := v1, vars2 := v2\<rparr>)))))"

text \<open>\<^verbatim>\<open>for i, N in enumerate(Ns):\<close> over the pairs still to run.\<close>

fun sizes_loop :: "int \<Rightarrow> (nat \<times> int) list \<Rightarrow> nb \<Rightarrow> error + nb" where
  "sizes_loop reps [] st = Inr st"
| "sizes_loop reps ((i, N) # rest) st =
     (case reps_loop N (range_py reps) st of
        Inl e \<Rightarrow> Inl e
      | Inr st' \<Rightarrow>
          (case record_stats i st' of
             Inl e \<Rightarrow> Inl e
           | Inr st'' \<Rightarrow> sizes_loop reps rest st''))"

definition enumerate_py :: "'a list \<Rightarrow> (nat \<times> 'a) list" where
  "enumerate_py xs = zip [0 ..< length xs] xs"

text \<open>
  Cell 7 up to the prints, with \<^verbatim>\<open>Ns\<close> and \<^verbatim>\<open>reps\<close> (which the cell assigns first) as
  the arguments.  \<^verbatim>\<open>np.zeros(reps)\<close> raises for a negative \<open>reps\<close>, after the four
  result arrays have been allocated.  This is the cell for the sizes of which NumPy can
  create an array; \<open>run_a\<close> below is the cell with the refusals of larger sizes.
\<close>

definition run :: "int list \<Rightarrow> int \<Rightarrow> nb \<Rightarrow> error + nb" where
  "run Ns reps st =
     (let sa = st\<lparr>means1 := np_zeros (length Ns), vars1 := np_zeros (length Ns),
                  means2 := np_zeros (length Ns), vars2 := np_zeros (length Ns)\<rparr>
      in if reps < 0 then Inl ValueError
         else sizes_loop reps (enumerate_py Ns)
                (sa\<lparr>est1 := np_zeros (nat reps), est2 := np_zeros (nat reps)\<rparr>))"

text \<open>What the cell hands to the reporting code: the four result arrays.\<close>

definition result :: "nb \<Rightarrow> npfloat list \<times> npfloat list \<times> npfloat list \<times> npfloat list" where
  "result st = (means1 st, vars1 st, means2 st, vars2 st)"

section \<open>Array creation that NumPy refuses\<close>

text \<open>
  \<^verbatim>\<open>np.zeros(n)\<close> and \<^verbatim>\<open>np.random.randn(n)\<close> create an array of \<open>n\<close> elements, and NumPy
  refuses some sizes: a negative one and one too large to address (\<^verbatim>\<open>2**63\<close> elements
  or more, or as many bytes) with \<^verbatim>\<open>ValueError\<close>, one for which the machine has no memory
  with \<^verbatim>\<open>MemoryError\<close>.  Which sizes are refused
  depends on the machine and on NumPy, which are not part of the notebook, so the refusal
  is a parameter: \<open>alloc n\<close> is the error raised for an array of \<open>n\<close> elements, and \<open>None\<close>
  when the array is created.  The definitions of this section are the cell again, with
  every array creation asking \<open>alloc\<close> first.
\<close>

type_synonym allocator = "int \<Rightarrow> error option"

definition np_zeros_a :: "allocator \<Rightarrow> int \<Rightarrow> error + npfloat list" where
  "np_zeros_a alloc n = (case alloc n of Some e \<Rightarrow> Inl e | None \<Rightarrow> Inr (np_zeros (nat n)))"

definition randn_a :: "allocator \<Rightarrow> int \<Rightarrow> rng \<Rightarrow> error + (npfloat list \<times> rng)" where
  "randn_a alloc n g = (case alloc n of Some e \<Rightarrow> Inl e | None \<Rightarrow> randn n g)"

definition trial_a :: "allocator \<Rightarrow> int \<Rightarrow> nat \<Rightarrow> nb \<Rightarrow> error + nb" where
  "trial_a alloc N r st =
     (case randn_a alloc N (gen st) of
        Inl e \<Rightarrow> Inl e
      | Inr (zs, g1) \<Rightarrow>
          let sa = st\<lparr>gen := g1, x := map (\<lambda>z. fadd z (Finite (theta st))) zs\<rparr> in
          (case store (est1 sa) r (grad1 sa (x sa)) of
             Inl e \<Rightarrow> Inl e
           | Inr b1 \<Rightarrow>
               let sb = sa\<lparr>est1 := b1\<rparr> in
               (case randn_a alloc N (gen sb) of
                  Inl e \<Rightarrow> Inl e
                | Inr (es, g2) \<Rightarrow>
                    let sc = sb\<lparr>gen := g2, eps := es\<rparr> in
                    (case store (est2 sc) r (grad2 sc (eps sc)) of
                       Inl e \<Rightarrow> Inl e
                     | Inr b2 \<Rightarrow> Inr (sc\<lparr>est2 := b2\<rparr>)))))"

fun reps_loop_a :: "allocator \<Rightarrow> int \<Rightarrow> nat list \<Rightarrow> nb \<Rightarrow> error + nb" where
  "reps_loop_a alloc N [] st = Inr st"
| "reps_loop_a alloc N (r # rs) st =
     (case trial_a alloc N r st of
        Inl e \<Rightarrow> Inl e
      | Inr st' \<Rightarrow> reps_loop_a alloc N rs st')"

fun sizes_loop_a :: "allocator \<Rightarrow> int \<Rightarrow> (nat \<times> int) list \<Rightarrow> nb \<Rightarrow> error + nb" where
  "sizes_loop_a alloc reps [] st = Inr st"
| "sizes_loop_a alloc reps ((i, N) # rest) st =
     (case reps_loop_a alloc N (range_py reps) st of
        Inl e \<Rightarrow> Inl e
      | Inr st' \<Rightarrow>
          (case record_stats i st' of
             Inl e \<Rightarrow> Inl e
           | Inr st'' \<Rightarrow> sizes_loop_a alloc reps rest st''))"

text \<open>
  Cell 7: the four result arrays of \<^verbatim>\<open>len(Ns)\<close> elements, the two trial buffers of
  \<^verbatim>\<open>reps\<close> elements, then the loops.
\<close>

definition run_a :: "allocator \<Rightarrow> int list \<Rightarrow> int \<Rightarrow> nb \<Rightarrow> error + nb" where
  "run_a alloc Ns reps st =
     (case np_zeros_a alloc (int (length Ns)) of Inl e \<Rightarrow> Inl e | Inr m1 \<Rightarrow>
     (case np_zeros_a alloc (int (length Ns)) of Inl e \<Rightarrow> Inl e | Inr v1 \<Rightarrow>
     (case np_zeros_a alloc (int (length Ns)) of Inl e \<Rightarrow> Inl e | Inr m2 \<Rightarrow>
     (case np_zeros_a alloc (int (length Ns)) of Inl e \<Rightarrow> Inl e | Inr v2 \<Rightarrow>
     (case np_zeros_a alloc reps of Inl e \<Rightarrow> Inl e | Inr b1 \<Rightarrow>
     (case np_zeros_a alloc reps of Inl e \<Rightarrow> Inl e | Inr b2 \<Rightarrow>
        sizes_loop_a alloc reps (enumerate_py Ns)
          (st\<lparr>means1 := m1, vars1 := v1, means2 := m2, vars2 := v2,
              est1 := b1, est2 := b2\<rparr>)))))))"

section \<open>Inputs for concrete runs\<close>

text \<open>
  The globals of a session in which \<^verbatim>\<open>theta\<close> has been assigned and the generator holds
  the variate sequence \<open>d\<close>; arrays that no cell has assigned yet are empty.
\<close>

definition globals :: "real \<Rightarrow> (nat \<Rightarrow> real) \<Rightarrow> nb" where
  "globals t d =
     \<lparr>theta = t, x = [], eps = [], gen = \<lparr>draws = d, pos = 0\<rparr>,
      est1 = [], est2 = [], means1 = [], vars1 = [], means2 = [], vars2 = []\<rparr>"

text \<open>A generator whose every variate is \<open>c\<close>.\<close>

definition constant_draws :: "real \<Rightarrow> nat \<Rightarrow> real" where
  "constant_draws c k = c"

text \<open>
  An allocator with room for arrays of up to \<open>cap\<close> elements of \<^verbatim>\<open>float64\<close> on a 64-bit
  machine: a negative size and a size of \<^verbatim>\<open>2**60\<close> elements or more (\<^verbatim>\<open>2**63\<close> bytes) are
  a \<^verbatim>\<open>ValueError\<close>, a size beyond \<open>cap\<close> is a \<^verbatim>\<open>MemoryError\<close>.
\<close>

definition numpy_alloc :: "nat \<Rightarrow> allocator" where
  "numpy_alloc cap n =
     (if n < 0 then Some ValueError
      else if 2 ^ 60 \<le> n then Some ValueError
      else if int cap < n then Some MemoryError
      else None)"

text \<open>
  A session in the middle of the experiment: \<^verbatim>\<open>theta = 0\<close>, every variate is \<open>1\<close>, the
  global \<^verbatim>\<open>x\<close> holds one sample, the trial buffers hold the values of an earlier sample
  size and the result arrays have one slot.
\<close>

definition sample_nb :: nb where
  "sample_nb = (globals 0 (constant_draws 1))
     \<lparr>x := [Finite 1], est1 := [Finite 5], est2 := [Finite 7],
      means1 := [Finite 0], vars1 := [Finite 0], means2 := [Finite 0], vars2 := [Finite 0]\<rparr>"

text \<open>What a caller of cell 7 observes: the error raised, or the four result arrays.\<close>

definition outcome :: "error + nb \<Rightarrow> error + (npfloat list \<times> npfloat list \<times> npfloat list \<times> npfloat list)" where
  "outcome r = (case r of Inl e \<Rightarrow> Inl e | Inr st \<Rightarrow> Inr (result st))"

section \<open>The experiment as the specification words it\<close>

text \<open>
  The definitions of this section follow the specification's description of
  \<^verbatim>\<open>score_function_estimator\<close>, \<^verbatim>\<open>reparameterized_estimator\<close> and \<^verbatim>\<open>run\<close>, not the
  notebook; the notebook's cell is compared with them below.
\<close>

text \<open>The next \<open>N\<close> variates of a generator, and the generator after they are consumed.\<close>

definition fresh :: "nat \<Rightarrow> rng \<Rightarrow> npfloat list" where
  "fresh N g = map (\<lambda>k. Finite (draws g k)) [pos g ..< pos g + N]"

definition advance :: "nat \<Rightarrow> rng \<Rightarrow> rng" where
  "advance N g = g\<lparr>pos := pos g + N\<rparr>"

text \<open>The objective integrand \<^verbatim>\<open>f(x) = |x|^(1/4)\<close> and \<^verbatim>\<open>g(y) = y / (4*|y|^(2 - 1/4))\<close>.\<close>

definition f_objective :: "npfloat \<Rightarrow> npfloat" where
  "f_objective v = fpow (fabs v) (1/4)"

definition g_derivative :: "npfloat \<Rightarrow> npfloat" where
  "g_derivative y = fdiv y (fmul (Finite 4) (fpow (fabs y) (2 - 1/4)))"

text \<open>\<^verbatim>\<open>(1/N) * sum_i f(x_i) * (x_i - theta)\<close> with \<open>N\<close> the number of samples.\<close>

definition score_function_estimator :: "npfloat list \<Rightarrow> real \<Rightarrow> npfloat" where
  "score_function_estimator samples t =
     fmul (fdiv (Finite 1) (of_size (length samples)))
          (np_sum (map (\<lambda>v. fmul (f_objective v) (fsub v (Finite t))) samples))"

text \<open>\<^verbatim>\<open>(1/N) * sum_i g(theta + eps_i)\<close> with \<open>N\<close> the number of noise draws.\<close>

definition reparameterized_estimator :: "npfloat list \<Rightarrow> real \<Rightarrow> npfloat" where
  "reparameterized_estimator epsilons t =
     fmul (fdiv (Finite 1) (of_size (length epsilons)))
          (np_sum (map (\<lambda>e. g_derivative (fadd (Finite t) e)) epsilons))"

text \<open>
  One trial for the sample size \<open>N\<close>: \<open>N\<close> fresh variates shifted by \<open>theta\<close> for the
  score-function estimator, then \<open>N\<close> further fresh variates, unshifted, for the
  reparameterized estimator.
\<close>

definition spec_trial :: "nat \<Rightarrow> real \<Rightarrow> rng \<Rightarrow> (npfloat \<times> npfloat) \<times> rng" where
  "spec_trial N t g =
     (let zs = fresh N g; g1 = advance N g;
          es = fresh N g1; g2 = advance N g1
      in ((score_function_estimator (map (\<lambda>z. fadd z (Finite t)) zs) t,
           reparameterized_estimator es t), g2))"

text \<open>The trial repeated \<open>k\<close> times: the pairs of estimator values, in the order drawn.\<close>

fun spec_trials :: "nat \<Rightarrow> nat \<Rightarrow> real \<Rightarrow> rng \<Rightarrow> (npfloat \<times> npfloat) list \<times> rng" where
  "spec_trials 0 N t g = ([], g)"
| "spec_trials (Suc k) N t g =
     (let (v, g1) = spec_trial N t g;
          (vs, g2) = spec_trials k N t g1
      in (v # vs, g2))"

record stats =
  mean_A :: npfloat
  var_A :: npfloat
  mean_B :: npfloat
  var_B :: npfloat

text \<open>
  For each sample size in turn, the mean and the variance of each estimator's trial
  values, keyed by the sample size.
\<close>

fun spec_run :: "nat list \<Rightarrow> nat \<Rightarrow> real \<Rightarrow> rng \<Rightarrow> (nat \<times> stats) list" where
  "spec_run [] reps t g = []"
| "spec_run (N # Ns) reps t g =
     (let (vs, g1) = spec_trials reps N t g
      in (N, \<lparr>mean_A = np_mean (map fst vs), var_A = np_var (map fst vs),
              mean_B = np_mean (map snd vs), var_B = np_var (map snd vs)\<rparr>)
         # spec_run Ns reps t g1)"

section \<open>Rounded arithmetic\<close>

text \<open>
  The model above adds and divides exactly.  NumPy's \<^verbatim>\<open>float64\<close> rounds the result of
  every operation to the nearest value with a 53-bit significand, ties to the even
  significand.  This section models that rounding on the rationals, for values in the
  normal range (no overflow, no subnormal numbers), and with it the sum and the mean of a
  short array, which \<^verbatim>\<open>np.sum\<close> accumulates from left to right when the array has fewer
  than eight elements.
\<close>

text \<open>The exponent \<open>e\<close> with \<^verbatim>\<open>2^e <= |q| < 2^(e+1)\<close>, for \<open>q \<noteq> 0\<close>.\<close>

definition binary_exponent :: "rat \<Rightarrow> int" where
  "binary_exponent q =
     (let (p, d) = quotient_of \<bar>q\<bar>;
          e = bitlen p - bitlen d
      in if 2 powi e \<le> \<bar>q\<bar> then e else e - 1)"

definition f64_round :: "rat \<Rightarrow> rat" where
  "f64_round q =
     (if q = 0 then 0
      else let u = 2 powi (binary_exponent q - 52);
               n = q / u;
               f = \<lfloor>n\<rfloor>;
               r = n - of_int f;
               z = (if r < 1/2 then f else if 1/2 < r then f + 1
                    else if even f then f else f + 1)
           in of_int z * u)"

definition f64_sum :: "rat list \<Rightarrow> rat" where
  "f64_sum a = foldl (\<lambda>s v. f64_round (s + v)) 0 a"

text \<open>\<^verbatim>\<open>np.mean\<close> of a non-empty array of finite values; \<open>None\<close> stands for NaN.\<close>

definition f64_mean :: "rat list \<Rightarrow> rat option" where
  "f64_mean a = (if a = [] then None else Some (f64_round (f64_sum a / of_nat (length a))))"

section \<open>Sums of finite values\<close>

lemma foldl_fadd_Finite: "foldl fadd (Finite a) (map Finite xs) = Finite (a + sum_list xs)"
  by (induction xs arbitrary: a) (simp_all add: add.assoc)

lemma np_sum_Finite: "np_sum (map Finite xs) = Finite (sum_list xs)"
  by (simp add: np_sum_def foldl_fadd_Finite)

lemma scale_by_size: "fmul (fdiv (Finite 1) (of_size n)) s = fdiv s (of_size n)"
  by (cases s) (auto simp: of_size_def)

lemma fadd_commute: "fadd a b = fadd b a"
  by (cases a; cases b) simp_all

lemma fadd_assoc: "fadd (fadd a b) c = fadd a (fadd b c)"
  by (cases a; cases b; cases c) simp_all

lemma np_sum_fold: "np_sum a = fold (\<lambda>v s. fadd s v) a (Finite 0)"
  by (simp add: np_sum_def foldl_conv_fold)

text \<open>In exact arithmetic the sum does not depend on the order of the elements.\<close>

lemma np_sum_mset: "mset a = mset b \<Longrightarrow> np_sum a = np_sum b"
proof -
  assume m: "mset a = mset b"
  have "fold (\<lambda>v s. fadd s v) a = fold (\<lambda>v s. fadd s v) b"
  proof (rule fold_multiset_equiv[OF _ m])
    fix u v
    show "(\<lambda>s. fadd s u) \<circ> (\<lambda>s. fadd s v) = (\<lambda>s. fadd s v) \<circ> (\<lambda>s. fadd s u)"
      by (rule ext) (simp add: fadd_assoc fadd_commute[of u v])
  qed
  then show ?thesis by (simp add: np_sum_fold)
qed


section \<open>The notebook's estimators and the specification's\<close>

lemma grad1_spec: "grad1 st xa = score_function_estimator xa (theta st)"
  by (simp add: grad1_def score_function_estimator_def scale_by_size f_objective_def)

lemma grad2_spec:
  "length (x st) = length ea \<Longrightarrow> grad2 st ea = reparameterized_estimator ea (theta st)"
  by (simp add: grad2_def reparameterized_estimator_def scale_by_size g_derivative_def)

section \<open>One trial\<close>

lemma randn_nat: "randn (int N) g = Inr (fresh N g, advance N g)"
  by (simp add: randn_def fresh_def advance_def)

lemma length_fresh: "length (fresh N g) = N"
  by (simp add: fresh_def)

lemma trial_nat:
  assumes "r < length (est1 st)" "r < length (est2 st)"
  shows "trial (int N) r st =
     Inr (st\<lparr>gen := snd (spec_trial N (theta st) (gen st)),
             x := map (\<lambda>z. fadd z (Finite (theta st))) (fresh N (gen st)),
             est1 := (est1 st)[r := fst (fst (spec_trial N (theta st) (gen st)))],
             eps := fresh N (advance N (gen st)),
             est2 := (est2 st)[r := snd (fst (spec_trial N (theta st) (gen st)))]\<rparr>)"
  using assms
  by (simp add: trial_def randn_nat store_def Let_def spec_trial_def grad1_spec grad2_spec
      length_fresh)

lemma trial_ignores_x_eps: "trial N r (st\<lparr>x := a, eps := b\<rparr>) = trial N r st"
  by (simp add: trial_def Let_def grad1_def grad2_def split: sum.splits prod.splits)

section \<open>The inner loop\<close>

lemma length_spec_trials: "length (fst (spec_trials n N t g)) = n"
  by (induction n arbitrary: g) (simp_all add: case_prod_beta)

text \<open>
  The loop invariant: when the repetitions \<open>k, \<dots>, n - 1\<close> remain, the entries below \<open>k\<close>
  are kept and the others are overwritten by the remaining trials' values.
\<close>

lemma reps_loop_from:
  "n - k = d \<Longrightarrow> k \<le> n \<Longrightarrow> length (est1 st) = n \<Longrightarrow> length (est2 st) = n \<Longrightarrow>
   \<exists>st'. reps_loop (int N) [k ..< n] st = Inr st'
     \<and> est1 st' = take k (est1 st) @ map fst (fst (spec_trials d N (theta st) (gen st)))
     \<and> est2 st' = take k (est2 st) @ map snd (fst (spec_trials d N (theta st) (gen st)))
     \<and> gen st' = snd (spec_trials d N (theta st) (gen st))
     \<and> theta st' = theta st
     \<and> means1 st' = means1 st \<and> vars1 st' = vars1 st
     \<and> means2 st' = means2 st \<and> vars2 st' = vars2 st"
proof (induction d arbitrary: k st)
  case 0
  then have "k = n" by simp
  with 0 show ?case by simp
next
  case (Suc d)
  then have kn: "k < n" by simp
  let ?v = "fst (spec_trial N (theta st) (gen st))"
  let ?g = "snd (spec_trial N (theta st) (gen st))"
  define s1 where "s1 = st\<lparr>gen := ?g,
             x := map (\<lambda>z. fadd z (Finite (theta st))) (fresh N (gen st)),
             est1 := (est1 st)[k := fst ?v],
             eps := fresh N (advance N (gen st)),
             est2 := (est2 st)[k := snd ?v]\<rparr>"
  have t: "trial (int N) k st = Inr s1"
    unfolding s1_def using kn Suc.prems by (intro trial_nat) simp_all
  have s1: "theta s1 = theta st" "gen s1 = ?g" "est1 s1 = (est1 st)[k := fst ?v]"
    "est2 s1 = (est2 st)[k := snd ?v]" "means1 s1 = means1 st" "vars1 s1 = vars1 st"
    "means2 s1 = means2 st" "vars2 s1 = vars2 st"
    by (simp_all add: s1_def)
  have "n - Suc k = d" "Suc k \<le> n" "length (est1 s1) = n" "length (est2 s1) = n"
    using Suc.prems by (simp_all add: s1)
  from Suc.IH[OF this] obtain st' where
    st': "reps_loop (int N) [Suc k ..< n] s1 = Inr st'"
      "est1 st' = take (Suc k) (est1 s1) @ map fst (fst (spec_trials d N (theta s1) (gen s1)))"
      "est2 st' = take (Suc k) (est2 s1) @ map snd (fst (spec_trials d N (theta s1) (gen s1)))"
      "gen st' = snd (spec_trials d N (theta s1) (gen s1))"
      "theta st' = theta s1"
      "means1 st' = means1 s1" "vars1 st' = vars1 s1"
      "means2 st' = means2 s1" "vars2 st' = vars2 s1"
    by blast
  have up: "[k ..< n] = k # [Suc k ..< n]"
    using kn by (simp add: upt_conv_Cons)
  have tk: "\<And>b v. length b = n \<Longrightarrow> take (Suc k) (b[k := v]) = take k b @ [v]"
    using kn by (simp add: take_Suc_conv_app_nth)
  have sp: "spec_trials (Suc d) N (theta st) (gen st)
      = (?v # fst (spec_trials d N (theta st) ?g), snd (spec_trials d N (theta st) ?g))"
    by (simp add: case_prod_beta)
  have "reps_loop (int N) [k ..< n] st = Inr st'"
    by (simp add: up t st')
  then show ?case
    using st' Suc.prems by (simp add: s1 tk sp del: spec_trials.simps)
qed

lemma reps_loop_all:
  assumes "length (est1 st) = n" "length (est2 st) = n"
  shows "\<exists>st'. reps_loop (int N) (range_py (int n)) st = Inr st'
     \<and> est1 st' = map fst (fst (spec_trials n N (theta st) (gen st)))
     \<and> est2 st' = map snd (fst (spec_trials n N (theta st) (gen st)))
     \<and> gen st' = snd (spec_trials n N (theta st) (gen st))
     \<and> theta st' = theta st
     \<and> means1 st' = means1 st \<and> vars1 st' = vars1 st
     \<and> means2 st' = means2 st \<and> vars2 st' = vars2 st"
  using reps_loop_from[of n 0 n st N] assms by (simp add: range_py_def)

lemma reps_loop_ignores_x_eps:
  "reps_loop N rs (st\<lparr>x := a, eps := b\<rparr>) =
     (if rs = [] then Inr (st\<lparr>x := a, eps := b\<rparr>) else reps_loop N rs st)"
  by (cases rs) (simp_all add: trial_ignores_x_eps)

lemma reps_loop_lengths:
  assumes "0 \<le> reps" "\<not> (0 < reps \<and> N < 0)"
    "length (est1 st) = nat reps" "length (est2 st) = nat reps"
  shows "\<exists>s. reps_loop N (range_py reps) st = Inr s
     \<and> length (est1 s) = nat reps \<and> length (est2 s) = nat reps
     \<and> length (means1 s) = length (means1 st) \<and> length (vars1 s) = length (vars1 st)
     \<and> length (means2 s) = length (means2 st) \<and> length (vars2 s) = length (vars2 st)"
proof (cases "reps = 0")
  case True
  then show ?thesis using assms by (simp add: range_py_def)
next
  case False
  with assms have N: "0 \<le> N" by simp
  from reps_loop_all[OF assms(3,4), of "nat N"] N assms(1) show ?thesis
    by (auto simp: length_spec_trials)
qed

section \<open>The outer loop\<close>

lemma record_stats_ok:
  assumes "i < length (means1 st)" "i < length (means2 st)"
    "i < length (vars1 st)" "i < length (vars2 st)"
  shows "record_stats i st =
     Inr (st\<lparr>means1 := (means1 st)[i := np_mean (est1 st)],
             means2 := (means2 st)[i := np_mean (est2 st)],
             vars1 := (vars1 st)[i := np_var (est1 st)],
             vars2 := (vars2 st)[i := np_var (est2 st)]\<rparr>)"
  using assms by (simp add: record_stats_def store_def)

lemma record_stats_keeps_x_eps:
  "record_stats i (st\<lparr>x := a, eps := b\<rparr>) =
     (case record_stats i st of Inl e \<Rightarrow> Inl e | Inr s \<Rightarrow> Inr (s\<lparr>x := a, eps := b\<rparr>))"
  by (simp add: record_stats_def store_def)

lemma sizes_loop_from:
  "length (est1 st) = n \<Longrightarrow> length (est2 st) = n \<Longrightarrow>
   length (means1 st) = j + length Ns \<Longrightarrow> length (vars1 st) = j + length Ns \<Longrightarrow>
   length (means2 st) = j + length Ns \<Longrightarrow> length (vars2 st) = j + length Ns \<Longrightarrow>
   \<exists>st'. sizes_loop (int n) (zip [j ..< j + length Ns] (map int Ns)) st = Inr st'
     \<and> means1 st' = take j (means1 st) @ map (mean_A \<circ> snd) (spec_run Ns n (theta st) (gen st))
     \<and> vars1 st' = take j (vars1 st) @ map (var_A \<circ> snd) (spec_run Ns n (theta st) (gen st))
     \<and> means2 st' = take j (means2 st) @ map (mean_B \<circ> snd) (spec_run Ns n (theta st) (gen st))
     \<and> vars2 st' = take j (vars2 st) @ map (var_B \<circ> snd) (spec_run Ns n (theta st) (gen st))"
proof (induction Ns arbitrary: j st)
  case Nil
  then show ?case by simp
next
  case (Cons N Ns)
  let ?vs = "fst (spec_trials n N (theta st) (gen st))"
  let ?g = "snd (spec_trials n N (theta st) (gen st))"
  from reps_loop_all[OF Cons.prems(1,2), of N] obtain s1 where
    s1: "reps_loop (int N) (range_py (int n)) st = Inr s1"
      "est1 s1 = map fst ?vs" "est2 s1 = map snd ?vs" "gen s1 = ?g" "theta s1 = theta st"
      "means1 s1 = means1 st" "vars1 s1 = vars1 st"
      "means2 s1 = means2 st" "vars2 s1 = vars2 st"
    by blast
  define s2 where "s2 = s1\<lparr>means1 := (means1 s1)[j := np_mean (est1 s1)],
             means2 := (means2 s1)[j := np_mean (est2 s1)],
             vars1 := (vars1 s1)[j := np_var (est1 s1)],
             vars2 := (vars2 s1)[j := np_var (est2 s1)]\<rparr>"
  have rs: "record_stats j s1 = Inr s2"
    unfolding s2_def using Cons.prems by (intro record_stats_ok) (simp_all add: s1)
  have s2: "theta s2 = theta st" "gen s2 = ?g"
    "est1 s2 = map fst ?vs" "est2 s2 = map snd ?vs"
    "means1 s2 = (means1 st)[j := np_mean (map fst ?vs)]"
    "means2 s2 = (means2 st)[j := np_mean (map snd ?vs)]"
    "vars1 s2 = (vars1 st)[j := np_var (map fst ?vs)]"
    "vars2 s2 = (vars2 st)[j := np_var (map snd ?vs)]"
    by (simp_all add: s2_def s1)
  have pre: "length (est1 s2) = n" "length (est2 s2) = n"
    "length (means1 s2) = Suc j + length Ns" "length (vars1 s2) = Suc j + length Ns"
    "length (means2 s2) = Suc j + length Ns" "length (vars2 s2) = Suc j + length Ns"
    using Cons.prems by (simp_all add: s2 length_spec_trials)
  from Cons.IH[OF pre] obtain st' where
    st': "sizes_loop (int n) (zip [Suc j ..< Suc j + length Ns] (map int Ns)) s2 = Inr st'"
      "means1 st' = take (Suc j) (means1 s2) @ map (mean_A \<circ> snd) (spec_run Ns n (theta s2) (gen s2))"
      "vars1 st' = take (Suc j) (vars1 s2) @ map (var_A \<circ> snd) (spec_run Ns n (theta s2) (gen s2))"
      "means2 st' = take (Suc j) (means2 s2) @ map (mean_B \<circ> snd) (spec_run Ns n (theta s2) (gen s2))"
      "vars2 st' = take (Suc j) (vars2 s2) @ map (var_B \<circ> snd) (spec_run Ns n (theta s2) (gen s2))"
    by blast
  have up: "zip [j ..< j + length (N # Ns)] (map int (N # Ns))
      = (j, int N) # zip [Suc j ..< Suc j + length Ns] (map int Ns)"
  proof -
    have "[j ..< j + length (N # Ns)] = j # [Suc j ..< Suc j + length Ns]"
      by (simp add: upt_conv_Cons del: upt_Suc)
    then show ?thesis by simp
  qed
  have tk: "\<And>b v. length b = j + length (N # Ns) \<Longrightarrow> take (Suc j) (b[j := v]) = take j b @ [v]"
    by (simp add: take_Suc_conv_app_nth)
  have sp: "spec_run (N # Ns) n (theta st) (gen st)
      = (N, \<lparr>mean_A = np_mean (map fst ?vs), var_A = np_var (map fst ?vs),
              mean_B = np_mean (map snd ?vs), var_B = np_var (map snd ?vs)\<rparr>)
         # spec_run Ns n (theta st) ?g"
    by (simp add: case_prod_beta)
  have "sizes_loop (int n) (zip [j ..< j + length (N # Ns)] (map int (N # Ns))) st
      = sizes_loop (int n) (zip [Suc j ..< Suc j + length Ns] (map int Ns)) s2"
    unfolding up by (simp add: s1 rs del: upt_Suc)
  with st'(1)
  have "sizes_loop (int n) (zip [j ..< j + length (N # Ns)] (map int (N # Ns))) st = Inr st'"
    by simp
  then show ?case
    using st' Cons.prems(3-6) unfolding sp s2 by (simp add: tk)
qed

lemma map_fst_spec_run: "map fst (spec_run Ns n t g) = Ns"
  by (induction Ns arbitrary: g) (simp_all add: case_prod_beta)

lemma sizes_loop_ignores_x_eps:
  "outcome (sizes_loop reps ps (st\<lparr>x := a, eps := b\<rparr>)) = outcome (sizes_loop reps ps st)"
proof (induction ps arbitrary: st a b)
  case Nil
  show ?case by (simp add: outcome_def result_def)
next
  case (Cons p ps)
  obtain i N where p: "p = (i, N)" by (cases p)
  show ?case
  proof (cases "range_py reps = []")
    case True
    show ?thesis
    proof (cases "record_stats i st")
      case (Inl e)
      then show ?thesis
        by (simp add: p True record_stats_keeps_x_eps outcome_def)
    next
      case (Inr s)
      then show ?thesis
        using Cons.IH[where st = s and a = a and b = b]
        by (simp add: p True record_stats_keeps_x_eps)
    qed
  next
    case False
    then show ?thesis
      by (simp add: p reps_loop_ignores_x_eps)
  qed
qed

section \<open>The cell with NumPy's refusals\<close>

text \<open>Where NumPy creates the arrays, the definitions with an allocator are the plain ones.\<close>

lemma trial_a_created: "alloc N = None \<Longrightarrow> trial_a alloc N r st = trial N r st"
proof -
  assume "alloc N = None"
  then have "randn_a alloc N = randn N"
    by (intro ext) (simp add: randn_a_def)
  then show ?thesis
    unfolding trial_a_def trial_def by (simp only:)
qed

lemma trial_a_refused: "alloc N = Some e \<Longrightarrow> trial_a alloc N r st = Inl e"
  by (simp add: trial_a_def randn_a_def)

lemma reps_loop_a_created:
  "alloc N = None \<Longrightarrow> reps_loop_a alloc N rs st = reps_loop N rs st"
  by (induction rs arbitrary: st) (simp_all add: trial_a_created split: sum.splits)

lemma reps_loop_a_refused:
  "alloc N = Some e \<Longrightarrow> 0 < reps \<Longrightarrow> reps_loop_a alloc N (range_py reps) st = Inl e"
proof -
  assume a: "alloc N = Some e" and r: "0 < reps"
  then have "range_py reps = 0 # [Suc 0 ..< nat reps]"
    by (simp add: range_py_def upt_conv_Cons)
  then show ?thesis using a by (simp add: trial_a_refused)
qed

lemma sizes_loop_a_created:
  "\<forall>p\<in>set ps. alloc (snd p) = None \<Longrightarrow> sizes_loop_a alloc reps ps st = sizes_loop reps ps st"
proof (induction ps arbitrary: st)
  case Nil
  show ?case by simp
next
  case (Cons p ps)
  obtain i N where p: "p = (i, N)" by (cases p)
  with Cons.prems have "alloc N = None" by simp
  then have "reps_loop_a alloc N (range_py reps) = reps_loop N (range_py reps)"
    by (intro ext) (rule reps_loop_a_created)
  moreover have "sizes_loop_a alloc reps ps = sizes_loop reps ps"
    using Cons.IH Cons.prems by (intro ext) simp
  ultimately show ?case
    by (simp add: p split: sum.splits)
qed

lemma run_a_created:
  assumes "\<forall>n. n < 0 \<longrightarrow> alloc n \<noteq> None"
    and "alloc (int (length Ns)) = None" "alloc reps = None" "\<forall>N\<in>set Ns. alloc N = None"
  shows "run_a alloc Ns reps st = run Ns reps st"
proof -
  have r: "\<not> reps < 0"
    using assms(1,3) by auto
  have "\<forall>p\<in>set (enumerate_py Ns). alloc (snd p) = None"
    using assms(4) by (auto simp: enumerate_py_def dest: set_zip_rightD)
  then show ?thesis
    using assms(2,3) r
    by (simp add: run_a_def run_def np_zeros_a_def sizes_loop_a_created Let_def)
qed

text \<open>
  The outer loop fails at the first sample size that NumPy refuses, if a trial runs, with
  NumPy's error.
\<close>

lemma sizes_loop_a_outcome:
  "\<forall>n. n < 0 \<longrightarrow> alloc n \<noteq> None \<Longrightarrow>
   0 \<le> reps \<Longrightarrow> length (est1 st) = nat reps \<Longrightarrow> length (est2 st) = nat reps \<Longrightarrow>
   length (means1 st) = j + length Ns \<Longrightarrow> length (vars1 st) = j + length Ns \<Longrightarrow>
   length (means2 st) = j + length Ns \<Longrightarrow> length (vars2 st) = j + length Ns \<Longrightarrow>
   (if 0 < reps \<and> (\<exists>N\<in>set Ns. alloc N \<noteq> None)
    then \<exists>N\<in>set Ns. \<exists>e. alloc N = Some e
           \<and> sizes_loop_a alloc reps (zip [j ..< j + length Ns] Ns) st = Inl e
    else \<exists>st'. sizes_loop_a alloc reps (zip [j ..< j + length Ns] Ns) st = Inr st')"
proof (induction Ns arbitrary: j st)
  case Nil
  then show ?case by simp
next
  case (Cons N Ns)
  have up: "zip [j ..< j + length (N # Ns)] (N # Ns)
      = (j, N) # zip [Suc j ..< Suc j + length Ns] Ns"
  proof -
    have "[j ..< j + length (N # Ns)] = j # [Suc j ..< Suc j + length Ns]"
      by (simp add: upt_conv_Cons del: upt_Suc)
    then show ?thesis by simp
  qed
  show ?case
  proof (cases "0 < reps \<and> alloc N \<noteq> None")
    case True
    then obtain e where e: "alloc N = Some e" by auto
    with True have "sizes_loop_a alloc reps (zip [j ..< j + length (N # Ns)] (N # Ns)) st = Inl e"
      unfolding up by (simp add: reps_loop_a_refused)
    with True e show ?thesis by auto
  next
    case False
    have same: "reps_loop_a alloc N (range_py reps) st = reps_loop N (range_py reps) st"
    proof (cases "0 < reps")
      case True
      with False have "alloc N = None" by simp
      then show ?thesis by (rule reps_loop_a_created)
    next
      case False
      then show ?thesis by (simp add: range_py_def)
    qed
    have nn: "\<not> (0 < reps \<and> N < 0)"
      using False Cons.prems(1) by auto
    from reps_loop_lengths[OF Cons.prems(2) nn Cons.prems(3,4)] obtain s where
      s: "reps_loop N (range_py reps) st = Inr s"
        "length (est1 s) = nat reps" "length (est2 s) = nat reps"
        "length (means1 s) = length (means1 st)" "length (vars1 s) = length (vars1 st)"
        "length (means2 s) = length (means2 st)" "length (vars2 s) = length (vars2 st)"
      by blast
    define s2 where "s2 = s\<lparr>means1 := (means1 s)[j := np_mean (est1 s)],
             means2 := (means2 s)[j := np_mean (est2 s)],
             vars1 := (vars1 s)[j := np_var (est1 s)],
             vars2 := (vars2 s)[j := np_var (est2 s)]\<rparr>"
    have rs: "record_stats j s = Inr s2"
      unfolding s2_def using Cons.prems s by (intro record_stats_ok) simp_all
    have pre: "length (est1 s2) = nat reps" "length (est2 s2) = nat reps"
      "length (means1 s2) = Suc j + length Ns" "length (vars1 s2) = Suc j + length Ns"
      "length (means2 s2) = Suc j + length Ns" "length (vars2 s2) = Suc j + length Ns"
      using Cons.prems s by (simp_all add: s2_def)
    have step: "sizes_loop_a alloc reps (zip [j ..< j + length (N # Ns)] (N # Ns)) st
        = sizes_loop_a alloc reps (zip [Suc j ..< Suc j + length Ns] Ns) s2"
      unfolding up by (simp add: same s rs del: upt_Suc)
    have ex: "(0 < reps \<and> (\<exists>M\<in>set (N # Ns). alloc M \<noteq> None))
        = (0 < reps \<and> (\<exists>M\<in>set Ns. alloc M \<noteq> None))"
      using False by auto
    from Cons.IH[OF Cons.prems(1,2) pre] show ?thesis
      unfolding step ex by (auto split: if_splits)
  qed
qed

section \<open>A concrete run\<close>

text \<open>
  Two repetitions at the sample size \<open>2\<close>, with \<^verbatim>\<open>theta = 0\<close> and a generator whose variates
  are all \<open>1\<close>: every score-function estimate is \<open>1\<close>, every reparameterized estimate is
  \<open>1/4\<close>, and both variances are zero.
\<close>

lemma run_two_trials_example:
  "outcome (run [2] 2 (globals 0 (constant_draws 1)))
     = Inr ([Finite 1], [Finite 0], [Finite (1/4)], [Finite 0])"
  by (simp add: run_def enumerate_py_def globals_def np_zeros_def range_py_def trial_def randn_def
     store_def grad1_def grad2_def np_sum_def of_size_def constant_draws_def record_stats_def
     np_mean_def np_var_def outcome_def result_def Let_def upt_rec numeral_2_eq_2)

section \<open>The claims\<close>

subsection \<open>C1: invalid configurations\<close>

text \<open>
  C1 says that an invalid configuration (empty \<^verbatim>\<open>sample_sizes\<close>, \<^verbatim>\<open>repetitions < 1\<close>, a
  sample size that is not positive) fails fast with \<^verbatim>\<open>InvalidConfiguration\<close>.  The cell
  validates nothing.  With an empty list of sample sizes and the default hundred
  repetitions it returns, with empty result arrays (\<open>run\<close> is the cell where NumPy creates
  every array, lemma \<open>run_a_created\<close>):
\<close>

theorem run_empty_sample_sizes_returns:
  "run [] 100 (globals (1/10) (constant_draws 0)) =
     Inr ((globals (1/10) (constant_draws 0))\<lparr>est1 := np_zeros 100, est2 := np_zeros 100\<rparr>)"
  by (simp add: run_def enumerate_py_def globals_def np_zeros_def)

text \<open>
  C1 as amended.  The cell validates nothing and never fails with
  \<^verbatim>\<open>InvalidConfiguration\<close>.  Whatever sizes NumPy refuses (negative ones with
  \<^verbatim>\<open>ValueError\<close>, and with no \<^verbatim>\<open>InvalidConfiguration\<close> of its own), the cell fails exactly
  when NumPy refuses one of the arrays that it asks for: a result array of \<^verbatim>\<open>len(Ns)\<close>
  elements, a trial buffer of \<^verbatim>\<open>reps\<close> elements or, when \<^verbatim>\<open>reps\<close> is at least one, the
  variates of a sample size.  A negative \<^verbatim>\<open>reps\<close> is a \<^verbatim>\<open>ValueError\<close>, and so is a
  negative sample size when \<^verbatim>\<open>reps\<close> is at least one and the other arrays are created.
  An empty list of sample sizes, \<^verbatim>\<open>reps = 0\<close> and a sample size \<open>0\<close> are not rejected.
\<close>

theorem run_fails_only_where_numpy_refuses:
  assumes neg: "\<forall>n. n < 0 \<longrightarrow> alloc n = Some ValueError"
    and own: "\<forall>n. alloc n \<noteq> Some InvalidConfiguration"
  shows "((\<exists>e. run_a alloc Ns reps st = Inl e) =
            (alloc (int (length Ns)) \<noteq> None \<or> alloc reps \<noteq> None
             \<or> (0 < reps \<and> (\<exists>N\<in>set Ns. alloc N \<noteq> None))))
       \<and> run_a alloc Ns reps st \<noteq> Inl InvalidConfiguration
       \<and> (alloc (int (length Ns)) = None \<and> reps < 0 \<longrightarrow>
            run_a alloc Ns reps st = Inl ValueError)
       \<and> (alloc (int (length Ns)) = None \<and> alloc reps = None \<and> 0 < reps
            \<and> (\<exists>N\<in>set Ns. N < 0) \<and> (\<forall>N\<in>set Ns. 0 \<le> N \<longrightarrow> alloc N = None) \<longrightarrow>
            run_a alloc Ns reps st = Inl ValueError)"
proof (cases "alloc (int (length Ns))")
  case (Some e)
  then have "run_a alloc Ns reps st = Inl e"
    by (simp add: run_a_def np_zeros_a_def)
  with Some own show ?thesis by auto
next
  case len: None
  show ?thesis
  proof (cases "alloc reps")
    case (Some e)
    then have "run_a alloc Ns reps st = Inl e"
      using len by (simp add: run_a_def np_zeros_a_def)
    with Some own neg len show ?thesis by auto
  next
    case None
    have nn: "\<forall>n. n < 0 \<longrightarrow> alloc n \<noteq> None"
      using neg by simp
    with None have r0: "0 \<le> reps"
      by (metis not_le)
    define s0 where "s0 = st\<lparr>means1 := np_zeros (length Ns), vars1 := np_zeros (length Ns),
        means2 := np_zeros (length Ns), vars2 := np_zeros (length Ns),
        est1 := np_zeros (nat reps), est2 := np_zeros (nat reps)\<rparr>"
    have r: "run_a alloc Ns reps st
        = sizes_loop_a alloc reps (zip [0 ..< 0 + length Ns] Ns) s0"
      using len None by (simp add: run_a_def np_zeros_a_def s0_def enumerate_py_def)
    have pre: "length (est1 s0) = nat reps" "length (est2 s0) = nat reps"
      "length (means1 s0) = 0 + length Ns" "length (vars1 s0) = 0 + length Ns"
      "length (means2 s0) = 0 + length Ns" "length (vars2 s0) = 0 + length Ns"
      by (simp_all add: s0_def np_zeros_def)
    note out = sizes_loop_a_outcome[OF nn r0 pre]
    have a: "(\<exists>e. run_a alloc Ns reps st = Inl e) =
            (alloc (int (length Ns)) \<noteq> None \<or> alloc reps \<noteq> None
             \<or> (0 < reps \<and> (\<exists>N\<in>set Ns. alloc N \<noteq> None)))"
      using out unfolding r using len None by (auto split: if_splits)
    have b: "run_a alloc Ns reps st \<noteq> Inl InvalidConfiguration"
      using out own unfolding r by (auto split: if_splits)
    have c: "alloc (int (length Ns)) = None \<and> reps < 0 \<longrightarrow>
            run_a alloc Ns reps st = Inl ValueError"
      using r0 by simp
    have d: "alloc (int (length Ns)) = None \<and> alloc reps = None \<and> 0 < reps
            \<and> (\<exists>N\<in>set Ns. N < 0) \<and> (\<forall>N\<in>set Ns. 0 \<le> N \<longrightarrow> alloc N = None) \<longrightarrow>
            run_a alloc Ns reps st = Inl ValueError"
    proof (intro impI)
      assume h: "alloc (int (length Ns)) = None \<and> alloc reps = None \<and> 0 < reps
            \<and> (\<exists>N\<in>set Ns. N < 0) \<and> (\<forall>N\<in>set Ns. 0 \<le> N \<longrightarrow> alloc N = None)"
      then have "0 < reps \<and> (\<exists>N\<in>set Ns. alloc N \<noteq> None)"
        using nn by blast
      with out obtain N e where N: "N \<in> set Ns" "alloc N = Some e"
        "sizes_loop_a alloc reps (zip [0 ..< 0 + length Ns] Ns) s0 = Inl e"
        by (auto split: if_splits)
      with h have "N < 0" by (metis not_le option.distinct(1))
      with neg N have "e = ValueError" by simp
      with N show "run_a alloc Ns reps st = Inl ValueError"
        unfolding r by simp
    qed
    from a b c d show ?thesis by blast
  qed
qed

text \<open>
  C1 as amended, for an allocator with room for a million elements: \<^verbatim>\<open>reps = -1\<close> with
  the sample size \<open>10\<close>, and one repetition with the sample sizes \<open>10, -1\<close>.
\<close>

theorem run_fails_only_where_numpy_refuses_witness:
  "run_a (numpy_alloc 1000000) [10] (- 1) (globals (1/10) (constant_draws 0)) = Inl ValueError
   \<and> run_a (numpy_alloc 1000000) [10, - 1] 1 (globals (1/10) (constant_draws 0)) = Inl ValueError"
proof -
  have neg: "\<forall>n. n < 0 \<longrightarrow> numpy_alloc 1000000 n = Some ValueError"
    by (simp add: numpy_alloc_def)
  have own: "\<forall>n. numpy_alloc 1000000 n \<noteq> Some InvalidConfiguration"
    by (simp add: numpy_alloc_def)
  have len: "numpy_alloc 1000000 (int (length [10::int])) = None"
    "numpy_alloc 1000000 (int (length [10, - 1::int])) = None"
    "numpy_alloc 1000000 1 = None"
    "\<forall>N\<in>set [10, - 1::int]. 0 \<le> N \<longrightarrow> numpy_alloc 1000000 N = None"
    by (simp_all add: numpy_alloc_def)
  have "run_a (numpy_alloc 1000000) [10] (- 1) (globals (1/10) (constant_draws 0)) = Inl ValueError"
    using run_fails_only_where_numpy_refuses
      [OF neg own, of "[10]" "- 1" "globals (1/10) (constant_draws 0)"] len(1)
    by simp
  moreover
  have "run_a (numpy_alloc 1000000) [10, - 1] 1 (globals (1/10) (constant_draws 0)) = Inl ValueError"
    using run_fails_only_where_numpy_refuses
      [OF neg own, of "[10, - 1]" 1 "globals (1/10) (constant_draws 0)"] len(2,3,4)
    by simp
  ultimately show ?thesis by simp
qed

subsection \<open>C2: the reparameterized estimator\<close>

text \<open>
  C2 says that \<^verbatim>\<open>reparameterized_estimator(epsilons, theta)\<close> is
  \<^verbatim>\<open>(1/N) * sum_i g(theta + epsilons_i)\<close> with \<open>N\<close> the number of draws.  \<^verbatim>\<open>grad2\<close> divides
  by the size of the global \<^verbatim>\<open>x\<close> instead, where \<^verbatim>\<open>grad1\<close> divides by the size of its own
  argument.  With \<^verbatim>\<open>theta = 0\<close>, a global \<^verbatim>\<open>x\<close> of two elements and the single draw \<open>1\<close>,
  \<^verbatim>\<open>grad2\<close> returns \<open>1/8\<close> and the estimator of the claim is \<open>1/4\<close>.
\<close>

theorem grad2_divides_by_size_of_global_x:
  "grad2 ((globals 0 (constant_draws 0))\<lparr>x := [Finite 1, Finite 1]\<rparr>) [Finite 1] = Finite (1/8)
   \<and> reparameterized_estimator [Finite 1] 0 = Finite (1/4)"
  by (simp add: grad2_def globals_def np_sum_def of_size_def reparameterized_estimator_def
      g_derivative_def)

subsection \<open>C3: the score-function estimator\<close>

text \<open>
  C3.  For an array of \<open>N \<ge> 1\<close> samples, \<^verbatim>\<open>grad1\<close>, the notebook's score-function
  estimator, returns \<^verbatim>\<open>(1/N) * sum_i f(x_i) * (x_i - theta)\<close> with the integrand
  \<^verbatim>\<open>f(x) = |x|^(1/4)\<close>.
\<close>

theorem grad1_score_function_average:
  "xs \<noteq> [] \<Longrightarrow>
   grad1 st (map Finite xs) =
     Finite ((1 / real (length xs)) * (\<Sum>v\<leftarrow>xs. \<bar>v\<bar> powr (1/4) * (v - theta st)))"
proof -
  assume ne: "xs \<noteq> []"
  have m: "map (\<lambda>v. fmul (fpow (fabs v) (1/4)) (fsub v (Finite (theta st)))) (map Finite xs)
      = map Finite (map (\<lambda>v. \<bar>v\<bar> powr (1/4) * (v - theta st)) xs)"
    by simp
  show ?thesis using ne
    unfolding grad1_def m np_sum_Finite by (simp add: of_size_def)
qed

text \<open>C3 at the single sample \<open>1\<close> with \<^verbatim>\<open>theta = 0\<close>: the estimate is \<open>1\<close>.\<close>

theorem grad1_score_function_average_witness:
  "[1::real] \<noteq> [] \<and> grad1 (globals 0 (constant_draws 0)) (map Finite [1]) = Finite 1"
  using grad1_score_function_average [of "[1]" "globals 0 (constant_draws 0)"]
  by (simp add: globals_def)

subsection \<open>C4: the algorithm of the experiment\<close>

text \<open>
  C4.  For sample sizes \<open>Ns\<close> and \<open>reps\<close> repetitions, the cell returns, and its four
  result arrays are those of the specification's algorithm: for each sample size in turn,
  \<open>reps\<close> trials, each drawing \<open>N\<close> fresh variates shifted by \<^verbatim>\<open>theta\<close> for the
  score-function estimator and then \<open>N\<close> further fresh variates for the reparameterized
  estimator, and after them the mean and the variance of each estimator's \<open>reps\<close> values,
  entered for that sample size.
\<close>

theorem run_refines_spec_run:
  "\<exists>st'. run (map int Ns) (int reps) st = Inr st'
     \<and> map fst (spec_run Ns reps (theta st) (gen st)) = Ns
     \<and> means1 st' = map (mean_A \<circ> snd) (spec_run Ns reps (theta st) (gen st))
     \<and> vars1 st' = map (var_A \<circ> snd) (spec_run Ns reps (theta st) (gen st))
     \<and> means2 st' = map (mean_B \<circ> snd) (spec_run Ns reps (theta st) (gen st))
     \<and> vars2 st' = map (var_B \<circ> snd) (spec_run Ns reps (theta st) (gen st))"
proof -
  define s0 where "s0 = st\<lparr>means1 := np_zeros (length Ns), vars1 := np_zeros (length Ns),
      means2 := np_zeros (length Ns), vars2 := np_zeros (length Ns),
      est1 := np_zeros reps, est2 := np_zeros reps\<rparr>"
  have r: "run (map int Ns) (int reps) st
      = sizes_loop (int reps) (zip [0 ..< 0 + length Ns] (map int Ns)) s0"
    by (simp add: run_def s0_def enumerate_py_def)
  have s0: "theta s0 = theta st" "gen s0 = gen st"
    by (simp_all add: s0_def)
  have pre: "length (est1 s0) = reps" "length (est2 s0) = reps"
    "length (means1 s0) = 0 + length Ns" "length (vars1 s0) = 0 + length Ns"
    "length (means2 s0) = 0 + length Ns" "length (vars2 s0) = 0 + length Ns"
    by (simp_all add: s0_def np_zeros_def)
  from sizes_loop_from[OF pre] show ?thesis
    unfolding r s0 by (simp add: map_fst_spec_run)
qed

subsection \<open>C5: the order of the trial values\<close>

text \<open>
  C5 says that \<^verbatim>\<open>np.mean\<close> and \<^verbatim>\<open>np.var\<close> give the same result for every reordering of
  the array of trial values.  With \<^verbatim>\<open>float64\<close> rounding they do not: adding \<open>1\<close> to
  \<^verbatim>\<open>2^53\<close> is absorbed by the rounding, so the mean of \<^verbatim>\<open>2^53, 1, -2^53\<close> is \<open>0\<close>, and
  the mean of the same values in the order \<^verbatim>\<open>2^53, -2^53, 1\<close> is the \<^verbatim>\<open>float64\<close> nearest
  to \<open>1/3\<close>.
\<close>

theorem f64_mean_depends_on_order:
  "mset [2 ^ 53, 1, - (2 ^ 53)] = mset [2 ^ 53, - (2 ^ 53), 1 :: rat]
   \<and> f64_mean [2 ^ 53, 1, - (2 ^ 53)] = Some 0
   \<and> f64_mean [2 ^ 53, - (2 ^ 53), 1] = Some (6004799503160661 / 2 ^ 54)"
proof (intro conjI)
  show "mset [2 ^ 53, 1, - (2 ^ 53)] = mset [2 ^ 53, - (2 ^ 53), 1 :: rat]"
    by (simp add: add_mset_commute)
  show "f64_mean [2 ^ 53, 1, - (2 ^ 53)] = Some 0"
    by code_simp
  show "f64_mean [2 ^ 53, - (2 ^ 53), 1] = Some (6004799503160661 / 2 ^ 54)"
    by code_simp
qed

text \<open>
  The same at everyday magnitudes: the means of the \<^verbatim>\<open>float64\<close> values \<^verbatim>\<open>0.1, 0.2, 0.3\<close>
  and of \<^verbatim>\<open>0.3, 0.2, 0.1\<close> are \<^verbatim>\<open>0.20000000000000004\<close> and \<^verbatim>\<open>0.19999999999999998\<close>.
\<close>

lemma f64_mean_tenths:
  "f64_mean [f64_round (1/10), f64_round (2/10), f64_round (3/10)]
     = Some (7205759403792795 / 2 ^ 55)
   \<and> f64_mean [f64_round (3/10), f64_round (2/10), f64_round (1/10)]
     = Some (7205759403792793 / 2 ^ 55)"
  by code_simp

text \<open>
  C5 as amended.  In exact arithmetic, that is up to the rounding of \<^verbatim>\<open>float64\<close>,
  \<^verbatim>\<open>np.mean\<close> and \<^verbatim>\<open>np.var\<close> of the array of trial values are the same for every
  reordering of the array.
\<close>

theorem np_mean_var_permutation_invariant:
  "mset a = mset b \<Longrightarrow> np_mean a = np_mean b \<and> np_var a = np_var b"
proof -
  assume m: "mset a = mset b"
  have len: "length a = length b"
    using m by (rule mset_eq_length)
  have mean: "np_mean a = np_mean b"
    using np_sum_mset[OF m] len by (simp add: np_mean_def)
  have "mset (map (\<lambda>v. fmul v v) (map (\<lambda>v. fsub v (np_mean a)) a))
      = mset (map (\<lambda>v. fmul v v) (map (\<lambda>v. fsub v (np_mean a)) b))"
    using m by (simp del: map_map)
  from np_sum_mset[OF this] have "np_var a = np_var b"
    using mean len by (simp add: np_var_def Let_def)
  with mean show ?thesis by simp
qed

text \<open>C5 as amended, at the trial values \<open>1, 2\<close> and \<open>2, 1\<close>.\<close>

theorem np_mean_var_permutation_invariant_witness:
  "mset [Finite 1, Finite 2] = mset [Finite 2, Finite 1]
   \<and> np_mean [Finite 1, Finite 2] = np_mean [Finite 2, Finite 1]
   \<and> np_var [Finite 1, Finite 2] = np_var [Finite 2, Finite 1]"
proof -
  have m: "mset [Finite 1, Finite 2] = mset [Finite 2, Finite 1]"
    by (simp add: add_mset_commute)
  from np_mean_var_permutation_invariant [OF m] m show ?thesis
    by blast
qed

subsection \<open>C6: one sample, one repetition\<close>




subsection \<open>C7: determinism\<close>

text \<open>
  C7.  Two executions of the cell with the same \<^verbatim>\<open>Ns\<close>, \<^verbatim>\<open>reps\<close> and \<^verbatim>\<open>theta\<close> and the
  same state of the random generator (the same seed) give the same outcome: the same error
  or the same four result arrays, whatever the other global variables hold when the cell
  starts.
\<close>

theorem run_deterministic:
  assumes "theta st = theta st'" "gen st = gen st'"
  shows "outcome (run Ns reps st) = outcome (run Ns reps st')"
proof (cases "reps < 0")
  case True
  then show ?thesis by (simp add: run_def)
next
  case False
  define s0 where "s0 = st\<lparr>means1 := np_zeros (length Ns), vars1 := np_zeros (length Ns),
      means2 := np_zeros (length Ns), vars2 := np_zeros (length Ns),
      est1 := np_zeros (nat reps), est2 := np_zeros (nat reps)\<rparr>"
  have a: "run Ns reps st = sizes_loop reps (enumerate_py Ns) s0"
    using False by (simp add: run_def s0_def)
  have "st'\<lparr>means1 := np_zeros (length Ns), vars1 := np_zeros (length Ns),
      means2 := np_zeros (length Ns), vars2 := np_zeros (length Ns),
      est1 := np_zeros (nat reps), est2 := np_zeros (nat reps)\<rparr> = s0\<lparr>x := x st', eps := eps st'\<rparr>"
    using assms unfolding s0_def by (cases st; cases st') simp
  then have b: "run Ns reps st' = sizes_loop reps (enumerate_py Ns) (s0\<lparr>x := x st', eps := eps st'\<rparr>)"
    using False by (simp add: run_def)
  show ?thesis
    unfolding a b by (simp only: sizes_loop_ignores_x_eps)
qed

text \<open>
  C7 for a fresh session and for the session \<open>sample_nb\<close>, which differ in every array but
  share \<^verbatim>\<open>theta\<close> and the generator.
\<close>

theorem run_deterministic_witness:
  "theta (globals 0 (constant_draws 1)) = theta sample_nb
   \<and> gen (globals 0 (constant_draws 1)) = gen sample_nb
   \<and> globals 0 (constant_draws 1) \<noteq> sample_nb
   \<and> outcome (run [10, 100] 100 (globals 0 (constant_draws 1)))
       = outcome (run [10, 100] 100 sample_nb)"
proof -
  have h: "theta (globals 0 (constant_draws 1)) = theta sample_nb"
    "gen (globals 0 (constant_draws 1)) = gen sample_nb"
    by (simp_all add: sample_nb_def globals_def)
  have d: "globals 0 (constant_draws 1) \<noteq> sample_nb"
    by (simp add: sample_nb_def globals_def)
  from run_deterministic [OF h, of "[10, 100]" 100] h d show ?thesis
    by blast
qed

subsection \<open>C8: samples that coincide with theta\<close>

text \<open>
  C8 says that \<^verbatim>\<open>score_function_estimator\<close> is undefined or NaN when all samples
  coincide with \<^verbatim>\<open>theta\<close>.  \<^verbatim>\<open>grad1\<close> returns zero there: with \<^verbatim>\<open>theta = 0.1\<close> and two
  samples \<^verbatim>\<open>0.1\<close>,
\<close>

theorem grad1_samples_at_theta_is_zero:
  "grad1 (globals (1/10) (constant_draws 0)) [Finite (1/10), Finite (1/10)] = Finite 0"
  by (simp add: grad1_def globals_def np_sum_def of_size_def)

text \<open>
  C8 as amended.  When all \<open>N \<ge> 1\<close> samples coincide with \<^verbatim>\<open>theta\<close>, the score-function
  estimator returns exactly zero: every term \<^verbatim>\<open>f(x_i) * (x_i - theta)\<close> is zero.
\<close>

theorem grad1_all_samples_at_theta:
  "0 < N \<Longrightarrow> grad1 st (replicate N (Finite (theta st))) = Finite 0"
proof -
  assume N: "0 < N"
  have "map (\<lambda>v. fmul (fpow (fabs v) (1/4)) (fsub v (Finite (theta st))))
          (replicate N (Finite (theta st)))
      = map Finite (replicate N 0)"
    by simp
  then have "grad1 st (replicate N (Finite (theta st)))
      = fdiv (np_sum (map Finite (replicate N 0))) (of_size N)"
    by (simp only: grad1_def length_replicate)
  also have "\<dots> = Finite 0"
    using N by (simp only: np_sum_Finite) (simp add: of_size_def sum_list_replicate)
  finally show ?thesis .
qed

text \<open>C8 as amended, at three samples equal to \<^verbatim>\<open>theta = 1/10\<close>.\<close>

theorem grad1_all_samples_at_theta_witness:
  "(0::nat) < 3
   \<and> grad1 (globals (1/10) (constant_draws 0)) [Finite (1/10), Finite (1/10), Finite (1/10)]
       = Finite 0"
  using grad1_all_samples_at_theta [of 3 "globals (1/10) (constant_draws 0)"]
  by (simp add: globals_def numeral_3_eq_3)

subsection \<open>C9: the divisor of the reparameterized estimator\<close>

text \<open>
  C9.  \<^verbatim>\<open>grad2\<close> divides the sum of \<^verbatim>\<open>g(theta + eps_i)\<close> by the length of the global \<^verbatim>\<open>x\<close>,
  not by the length of its argument; the two agree, and \<^verbatim>\<open>grad2\<close> is the specification's
  estimator, when the lengths are equal; and in a trial of the experiment they are equal:
  whatever \<^verbatim>\<open>x\<close> held before, after the trial \<^verbatim>\<open>x\<close> and \<^verbatim>\<open>eps\<close> both have length \<open>N\<close> and the
  value stored in \<^verbatim>\<open>est2[r]\<close> is the specification's estimator of \<^verbatim>\<open>eps\<close>.
\<close>

theorem grad2_normalises_by_length_of_x:
  "grad2 st ea = fdiv (np_sum (map (\<lambda>e. g_derivative (fadd (Finite (theta st)) e)) ea))
                      (of_size (length (x st)))
   \<and> (length (x st) = length ea \<longrightarrow> grad2 st ea = reparameterized_estimator ea (theta st))
   \<and> (r < length (est1 st) \<and> r < length (est2 st) \<longrightarrow>
        (\<exists>st'. trial (int N) r st = Inr st'
           \<and> length (x st') = N \<and> length (eps st') = N
           \<and> est2 st' ! r = reparameterized_estimator (eps st') (theta st')))"
proof (intro conjI impI)
  show "grad2 st ea = fdiv (np_sum (map (\<lambda>e. g_derivative (fadd (Finite (theta st)) e)) ea))
                      (of_size (length (x st)))"
    by (simp add: grad2_def g_derivative_def)
next
  assume "length (x st) = length ea"
  then show "grad2 st ea = reparameterized_estimator ea (theta st)"
    by (rule grad2_spec)
next
  assume "r < length (est1 st) \<and> r < length (est2 st)"
  then have r: "r < length (est1 st)" "r < length (est2 st)" by simp_all
  show "\<exists>st'. trial (int N) r st = Inr st'
           \<and> length (x st') = N \<and> length (eps st') = N
           \<and> est2 st' ! r = reparameterized_estimator (eps st') (theta st')"
    unfolding trial_nat[OF r] using r
    by (simp add: length_fresh spec_trial_def Let_def)
qed

text \<open>C9 in the session \<open>sample_nb\<close>, for the single draw \<open>1\<close> and a trial of size \<open>1\<close>.\<close>

theorem grad2_normalises_by_length_of_x_witness:
  "length (x sample_nb) = length [Finite 1]
   \<and> grad2 sample_nb [Finite 1] = reparameterized_estimator [Finite 1] (theta sample_nb)
   \<and> 0 < length (est1 sample_nb) \<and> 0 < length (est2 sample_nb)
   \<and> (\<exists>st'. trial (int 1) 0 sample_nb = Inr st'
         \<and> length (x st') = 1 \<and> length (eps st') = 1
         \<and> est2 st' ! 0 = reparameterized_estimator (eps st') (theta st'))"
proof -
  have h1: "length (x sample_nb) = length [Finite 1]"
    by (simp add: sample_nb_def globals_def)
  have h2: "0 < length (est1 sample_nb) \<and> 0 < length (est2 sample_nb)"
    by (simp add: sample_nb_def globals_def)
  from grad2_normalises_by_length_of_x [of sample_nb "[Finite 1]" 0 1] h1 h2 show ?thesis
    by blast
qed

subsection \<open>C10: the reused trial buffers\<close>

text \<open>
  C10.  Whatever the buffers \<^verbatim>\<open>est1\<close> and \<^verbatim>\<open>est2\<close> (of \<open>n\<close> entries, \<open>n\<close> the number of
  repetitions) hold when the inner loop starts for a sample size \<open>N\<close>, after the loop every
  entry is the value of a trial drawn for \<open>N\<close>, and the mean and the variance entered for
  \<open>N\<close> are those of these trial values alone.
\<close>

theorem trial_buffers_overwritten:
  "length b1 = n \<Longrightarrow> length b2 = n \<Longrightarrow>
   i < length (means1 st) \<Longrightarrow> i < length (vars1 st) \<Longrightarrow>
   i < length (means2 st) \<Longrightarrow> i < length (vars2 st) \<Longrightarrow>
   \<exists>s s'. reps_loop (int N) (range_py (int n)) (st\<lparr>est1 := b1, est2 := b2\<rparr>) = Inr s
     \<and> est1 s = map fst (fst (spec_trials n N (theta st) (gen st)))
     \<and> est2 s = map snd (fst (spec_trials n N (theta st) (gen st)))
     \<and> sizes_loop (int n) [(i, int N)] (st\<lparr>est1 := b1, est2 := b2\<rparr>) = Inr s'
     \<and> means1 s' ! i = np_mean (map fst (fst (spec_trials n N (theta st) (gen st))))
     \<and> vars1 s' ! i = np_var (map fst (fst (spec_trials n N (theta st) (gen st))))
     \<and> means2 s' ! i = np_mean (map snd (fst (spec_trials n N (theta st) (gen st))))
     \<and> vars2 s' ! i = np_var (map snd (fst (spec_trials n N (theta st) (gen st))))"
proof -
  assume b: "length b1 = n" "length b2 = n"
    and i: "i < length (means1 st)" "i < length (vars1 st)"
      "i < length (means2 st)" "i < length (vars2 st)"
  let ?st = "st\<lparr>est1 := b1, est2 := b2\<rparr>"
  let ?vs = "fst (spec_trials n N (theta st) (gen st))"
  have "length (est1 ?st) = n" "length (est2 ?st) = n"
    using b by simp_all
  from reps_loop_all[OF this, of N] obtain s where
    s: "reps_loop (int N) (range_py (int n)) ?st = Inr s"
      "est1 s = map fst ?vs" "est2 s = map snd ?vs"
      "means1 s = means1 st" "vars1 s = vars1 st"
      "means2 s = means2 st" "vars2 s = vars2 st"
    by auto
  have rs: "record_stats i s =
     Inr (s\<lparr>means1 := (means1 s)[i := np_mean (est1 s)],
             means2 := (means2 s)[i := np_mean (est2 s)],
             vars1 := (vars1 s)[i := np_var (est1 s)],
             vars2 := (vars2 s)[i := np_var (est2 s)]\<rparr>)"
    using i by (intro record_stats_ok) (simp_all add: s)
  show ?thesis
    using i by (simp add: s rs)
qed

text \<open>
  C10 in the session \<open>sample_nb\<close>, whose buffers hold \<open>5\<close> and \<open>7\<close> from an earlier sample
  size.
\<close>

theorem trial_buffers_overwritten_witness:
  "length [Finite 5] = 1 \<and> length [Finite 7] = 1
   \<and> 0 < length (means1 sample_nb) \<and> 0 < length (vars1 sample_nb)
   \<and> 0 < length (means2 sample_nb) \<and> 0 < length (vars2 sample_nb)
   \<and> (\<exists>s s'. reps_loop (int 1) (range_py (int 1))
                (sample_nb\<lparr>est1 := [Finite 5], est2 := [Finite 7]\<rparr>) = Inr s
     \<and> est1 s = map fst (fst (spec_trials 1 1 (theta sample_nb) (gen sample_nb)))
     \<and> est2 s = map snd (fst (spec_trials 1 1 (theta sample_nb) (gen sample_nb)))
     \<and> sizes_loop (int 1) [(0, int 1)]
                (sample_nb\<lparr>est1 := [Finite 5], est2 := [Finite 7]\<rparr>) = Inr s'
     \<and> means1 s' ! 0 = np_mean (map fst (fst (spec_trials 1 1 (theta sample_nb) (gen sample_nb))))
     \<and> vars1 s' ! 0 = np_var (map fst (fst (spec_trials 1 1 (theta sample_nb) (gen sample_nb))))
     \<and> means2 s' ! 0 = np_mean (map snd (fst (spec_trials 1 1 (theta sample_nb) (gen sample_nb))))
     \<and> vars2 s' ! 0 = np_var (map snd (fst (spec_trials 1 1 (theta sample_nb) (gen sample_nb)))))"
proof -
  have h: "length [Finite 5] = 1" "length [Finite 7] = 1"
    "0 < length (means1 sample_nb)" "0 < length (vars1 sample_nb)"
    "0 < length (means2 sample_nb)" "0 < length (vars2 sample_nb)"
    by (simp_all add: sample_nb_def globals_def)
  from trial_buffers_overwritten [OF h, of 1] h show ?thesis
    by blast
qed

end
